theory Spec2Isabelle
  imports Complex_Main "HOL-Library.AList"
begin

section \<open>Smart Home Energy Consumption Tracker: the computational core\<close>

text \<open>
  A shallow embedding of \<^verbatim>\<open>energy_tracker.py\<close>. Python numbers are modelled
  as \<^typ>\<open>int\<close> (the table constants, the slider values) and \<^typ>\<open>real\<close> (everything
  that has passed through the true division \<^verbatim>\<open>hours / 8\<close> or a multiplication by a
  float literal). Every quantity the page computes from slider values is a multiple of
  \<open>1/16\<close> of small magnitude, which binary floating point represents exactly, so
  the real-number reading agrees with the float computation on the inputs the widgets
  can deliver.
\<close>

subsection \<open>Dictionaries and the constant tables\<close>

text \<open>
  A Python dict literal is an association list; \<^verbatim>\<open>d.get(k, default)\<close> is a lookup
  that falls back to the default where the key is missing.
\<close>

definition dict_get :: "(string \<times> 'v) list \<Rightarrow> string \<Rightarrow> 'v \<Rightarrow> 'v" where
  "dict_get d k dflt = (case map_of d k of Some v \<Rightarrow> v | None \<Rightarrow> dflt)"

definition consumption_map :: "(string \<times> int) list" where
  "consumption_map =
     [(''1BHK'', 3), (''2BHK'', 4), (''3BHK'', 5), (''4BHK'', 6), (''Villa'', 8)]"

definition calculate_base_consumption :: "string \<Rightarrow> int" where
  "calculate_base_consumption home_type = dict_get consumption_map home_type 4"

definition appliance_map :: "(string \<times> int) list" where
  "appliance_map =
     [(''AC'', 3), (''Fridge'', 2), (''Washing Machine'', 4), (''Dishwasher'', 3),
      (''Water Heater'', 5), (''Electric Stove'', 4)]"

definition get_appliance_consumption :: "string \<Rightarrow> int" where
  "get_appliance_consumption appliance = dict_get appliance_map appliance 1"

text \<open>
  \<^verbatim>\<open>get_consumption_category\<close> returns the label together with the CSS class used
  to render it.
\<close>

definition get_consumption_category :: "real \<Rightarrow> string \<times> string" where
  "get_consumption_category units =
     (if units \<le> 5 then (''Low'', ''consumption-low'')
      else if units \<le> 10 then (''Medium'', ''consumption-medium'')
      else (''High'', ''consumption-high''))"

subsection \<open>The daily tracking page\<close>

text \<open>
  \<^verbatim>\<open>st.session_state.user_data\<close> is a dict that is empty until the setup page has
  stored a profile; the tracking page reads three of its keys with \<^verbatim>\<open>.get\<close>. A key
  that is absent is \<open>None\<close> here.
\<close>

record user_data =
  name :: "string option"
  home_facility :: "string option"
  appliances :: "string list option"

text \<open>
  The widget values of one run of the tracking page. The checkbox and the slider of an
  appliance are keyed by the appliance's name (\<^verbatim>\<open>key=f"appliance_{appliance}"\<close>),
  so they are functions of that name. \<open>date_iso\<close> and \<open>day_name\<close> are the two
  renderings \<^verbatim>\<open>strftime('%Y-%m-%d')\<close> and \<^verbatim>\<open>strftime('%A')\<close> of the selected date.
\<close>

record widgets =
  date_iso :: string
  day_name :: string
  used :: "string \<Rightarrow> bool"
  hours :: "string \<Rightarrow> int"
  solar_used :: bool
  solar_hours :: int

text \<open>
  A value of the \<^verbatim>\<open>user_name\<close> column. A row built by the tracking page holds a
  Python \<^verbatim>\<open>str\<close> (or \<^verbatim>\<open>None\<close> when the profile has no name). A row read back
  from the CSV can hold a number instead, given here by its decimal rendering, or the
  missing value; \<^verbatim>\<open>drop_duplicates\<close> takes \<^verbatim>\<open>None\<close> and \<^verbatim>\<open>NaN\<close> for the same
  missing value, and a number is never equal to a \<^verbatim>\<open>str\<close>.
\<close>

datatype cell = Str string | Number string | Missing

text \<open>The row stored for a day: the keys of the \<^verbatim>\<open>daily_data\<close> dict, the CSV's columns.\<close>

record daily_record =
  date :: string
  day :: string
  user_name :: cell
  base_consumption :: int
  appliance_consumption :: real
  solar_reduction :: real
  total_consumption :: real
  estimated_cost :: real
  appliances_used :: "string list"

definition base_consumption_of :: "user_data \<Rightarrow> int" where
  "base_consumption_of ud =
     calculate_base_consumption (case home_facility ud of Some h \<Rightarrow> h | None \<Rightarrow> ''2BHK'')"

text \<open>The contribution of one appliance: its rate, normalised to eight hours.\<close>

definition consumption :: "string \<Rightarrow> int \<Rightarrow> real" where
  "consumption appliance hrs =
     real_of_int (get_appliance_consumption appliance) * (real_of_int hrs / 8)"

text \<open>
  The loop over the profile's appliances. Its state is the dict \<^verbatim>\<open>appliance_usage\<close>
  and the running \<^verbatim>\<open>daily_consumption\<close>; an appliance whose checkbox is not ticked
  leaves both unchanged.
\<close>

fun appliance_loop ::
  "widgets \<Rightarrow> string list \<Rightarrow> (string \<times> real) list \<times> real \<Rightarrow> (string \<times> real) list \<times> real"
where
  "appliance_loop w [] st = st"
| "appliance_loop w (appliance # rest) (appliance_usage, daily) =
     (if used w appliance
      then appliance_loop w rest
             (AList.update appliance (consumption appliance (hours w appliance)) appliance_usage,
              daily + consumption appliance (hours w appliance))
      else appliance_loop w rest (appliance_usage, daily))"

definition tracked :: "user_data \<Rightarrow> widgets \<Rightarrow> (string \<times> real) list \<times> real" where
  "tracked ud w =
     appliance_loop w (case appliances ud of Some as \<Rightarrow> as | None \<Rightarrow> [])
       ([], real_of_int (base_consumption_of ud))"

definition appliance_usage_of :: "user_data \<Rightarrow> widgets \<Rightarrow> (string \<times> real) list" where
  "appliance_usage_of ud w = fst (tracked ud w)"

definition solar_reduction_of :: "widgets \<Rightarrow> real" where
  "solar_reduction_of w = (if solar_used w then real_of_int (solar_hours w) * 1.5 else 0)"

definition daily_consumption :: "user_data \<Rightarrow> widgets \<Rightarrow> real" where
  "daily_consumption ud w = max 0 (snd (tracked ud w) - solar_reduction_of w)"

definition category :: "user_data \<Rightarrow> widgets \<Rightarrow> string" where
  "category ud w = fst (get_consumption_category (daily_consumption ud w))"

definition daily_data :: "user_data \<Rightarrow> widgets \<Rightarrow> daily_record" where
  "daily_data ud w =
     \<lparr> date = date_iso w,
       day = day_name w,
       user_name = (case name ud of Some n \<Rightarrow> Str n | None \<Rightarrow> Missing),
       base_consumption = base_consumption_of ud,
       appliance_consumption = sum_list (map snd (appliance_usage_of ud w)),
       solar_reduction = solar_reduction_of w,
       total_consumption = daily_consumption ud w,
       estimated_cost = daily_consumption ud w * 5.5,
       appliances_used = map fst (appliance_usage_of ud w) \<rparr>"

subsection \<open>The record store\<close>

text \<open>
  The backing resource \<^verbatim>\<open>energy_consumption_data.csv\<close>: it does not exist, or it
  exists and cannot be read or parsed, or it holds a table of rows. \<open>Table rows\<close> is
  the file that \<^verbatim>\<open>to_csv\<close> writes for \<open>rows\<close>: the file holds the text of each
  cell, not its type.
\<close>

datatype csv_file = Absent | Unreadable | Table "daily_record list"

text \<open>The text \<^verbatim>\<open>to_csv\<close> writes for a cell of the \<^verbatim>\<open>user_name\<close> column.\<close>

definition cell_text :: "cell \<Rightarrow> string" where
  "cell_text c = (case c of Str t \<Rightarrow> t | Number t \<Rightarrow> t | Missing \<Rightarrow> [])"

text \<open>
  \<^verbatim>\<open>pd.read_csv\<close> is called with the file name alone, so it infers the type of each
  column from the text. The texts it reads as the missing value:
\<close>

definition na_values :: "string list" where
  "na_values =
     [[], ''#N/A'', ''#N/A N/A'', ''#NA'', ''-1.#IND'', ''-1.#QNAN'', ''-NaN'', ''-nan'',
      ''1.#IND'', ''1.#QNAN'', ''<NA>'', ''N/A'', ''NA'', ''NULL'', ''NaN'', ''None'', ''n/a'',
      ''nan'', ''null'']"

definition is_na :: "string \<Rightarrow> bool" where
  "is_na t = (t \<in> set na_values)"

text \<open>An integer literal: digits after an optional sign.\<close>

definition unsigned :: "string \<Rightarrow> string" where
  "unsigned t =
     (case t of [] \<Rightarrow> [] | c # cs \<Rightarrow> if c = CHR ''-'' \<or> c = CHR ''+'' then cs else t)"

definition looks_int :: "string \<Rightarrow> bool" where
  "looks_int t = (unsigned t \<noteq> [] \<and> list_all (\<lambda>c. c \<in> set ''0123456789'') (unsigned t))"

text \<open>The decimal rendering of the integer that a literal denotes.\<close>

definition canonical :: "string \<Rightarrow> string" where
  "canonical t =
     (let m = dropWhile (\<lambda>c. c = CHR ''0'') (unsigned t)
      in if m = [] then ''0''
         else if take 1 t = ''-'' then CHR ''-'' # m else m)"

text \<open>
  The \<^verbatim>\<open>user_name\<close> column as it is read back. A missing-value text is the missing
  value. When every other text of the column is an integer literal the column is
  numeric, and otherwise the texts stay strings. (A column of decimal fractions, of
  booleans, or of integers padded with blanks is given another type by the library as
  well; those are read back as strings here. The dates have the form
  \<^verbatim>\<open>YYYY-MM-DD\<close>, which stays a string, and the other columns do not take part in
  dropping duplicates: they are kept as written.)
\<close>

definition infer_types :: "daily_record list \<Rightarrow> daily_record list" where
  "infer_types rows =
     (let texts = map (\<lambda>r. cell_text (user_name r)) rows;
          numeric = list_all looks_int (filter (\<lambda>t. \<not> is_na t) texts)
      in map (\<lambda>r. r\<lparr>user_name :=
                     (if is_na (cell_text (user_name r)) then Missing
                      else if numeric then Number (canonical (cell_text (user_name r)))
                      else Str (cell_text (user_name r)))\<rparr>) rows)"

datatype exn = FileNotFoundError | ReadError | WriteError

definition path_exists :: "csv_file \<Rightarrow> bool" where
  "path_exists f = (f \<noteq> Absent)"

definition read_csv :: "csv_file \<Rightarrow> exn + daily_record list" where
  "read_csv f =
     (case f of Absent \<Rightarrow> Inl FileNotFoundError
      | Unreadable \<Rightarrow> Inl ReadError
      | Table rows \<Rightarrow> Inr (infer_types rows))"

text \<open>The body of the \<^verbatim>\<open>try\<close> block of \<^verbatim>\<open>load_data\<close>; an empty DataFrame is \<open>[]\<close>.\<close>

definition load_data_try :: "csv_file \<Rightarrow> exn + daily_record list" where
  "load_data_try f = (if path_exists f then read_csv f else Inr [])"

text \<open>The undecorated function: the bare \<^verbatim>\<open>except:\<close> turns every exception into \<open>[]\<close>.\<close>

definition load_data_body :: "csv_file \<Rightarrow> daily_record list" where
  "load_data_body f = (case load_data_try f of Inr df \<Rightarrow> df | Inl e \<Rightarrow> [])"

text \<open>
  The state of the running application: the file, the entry that the decorator
  \<^verbatim>\<open>@st.cache_data\<close> keeps for the argument-less \<^verbatim>\<open>load_data\<close> (\<open>None\<close> until the
  first call), and the list \<^verbatim>\<open>st.session_state.daily_consumption\<close>.
\<close>

record app_state =
  csv :: csv_file
  cache :: "daily_record list option"
  session_daily_consumption :: "daily_record list"

text \<open>
  \<^verbatim>\<open>load_data\<close> as decorated: the body runs on the first call only, and every later
  call returns the stored value. Nothing in the program clears the entry.
\<close>

definition load_data :: "app_state \<Rightarrow> daily_record list \<times> app_state" where
  "load_data s =
     (case cache s of
        Some df \<Rightarrow> (df, s)
      | None \<Rightarrow> (let df = load_data_body (csv s) in (df, s\<lparr>cache := Some df\<rparr>)))"

text \<open>
  What the environment does to a write. \<^verbatim>\<open>to_csv\<close> opens the file for writing,
  which empties it, and then writes the rows in order; it can fail before the file is
  opened (the file is untouched) or after (the file holds the rows written so far).
\<close>

datatype write_outcome = Written | Fails_before_open | Fails_after_open nat

definition to_csv :: "daily_record list \<Rightarrow> write_outcome \<Rightarrow> csv_file \<Rightarrow> (exn + unit) \<times> csv_file" where
  "to_csv df out f =
     (case out of
        Written \<Rightarrow> (Inr (), Table df)
      | Fails_before_open \<Rightarrow> (Inl WriteError, f)
      | Fails_after_open n \<Rightarrow> (Inl WriteError, Table (take n df)))"

definition save_data :: "daily_record list \<Rightarrow> write_outcome \<Rightarrow> app_state \<Rightarrow> bool \<times> app_state" where
  "save_data data out s =
     (case to_csv data out (csv s) of
        (Inr u, f) \<Rightarrow> (True, s\<lparr>csv := f\<rparr>)
      | (Inl e, f) \<Rightarrow> (False, s\<lparr>csv := f\<rparr>))"

text \<open>
  \<^verbatim>\<open>df.drop_duplicates(subset=['date', 'user_name'], keep='last')\<close>: a row is dropped
  when a later row has the same date and user name; the rows kept stay in order.
\<close>

definition key :: "daily_record \<Rightarrow> string \<times> cell" where
  "key r = (date r, user_name r)"

fun drop_duplicates :: "daily_record list \<Rightarrow> daily_record list" where
  "drop_duplicates [] = []"
| "drop_duplicates (r # rs) =
     (if key r \<in> set (map key rs) then drop_duplicates rs else r # drop_duplicates rs)"

text \<open>
  The handler of the button ``Save Today's Data'': load, append, drop duplicates, write
  the whole table; the row joins the session's list only when the write succeeded.
  The result is what \<^verbatim>\<open>save_data\<close> returned.
\<close>

definition save_todays_data :: "daily_record \<Rightarrow> write_outcome \<Rightarrow> app_state \<Rightarrow> bool \<times> app_state" where
  "save_todays_data daily out s =
     (let (existing_data, s1) = load_data s;
          df = (if existing_data = [] then [daily] else existing_data @ [daily]);
          (ok, s2) = save_data (drop_duplicates df) out s1
      in if ok
         then (True, s2\<lparr>session_daily_consumption := session_daily_consumption s2 @ [daily]\<rparr>)
         else (False, s2))"

text \<open>
  The states a server process passes through: it starts with an empty cache over any
  file; pages load and save; a new browser session starts with an empty session list.
\<close>

inductive reachable :: "app_state \<Rightarrow> bool" where
  start: "reachable \<lparr>csv = f, cache = None, session_daily_consumption = []\<rparr>"
| loaded: "reachable s \<Longrightarrow> reachable (snd (load_data s))"
| saved: "reachable s \<Longrightarrow> reachable (snd (save_todays_data daily out s))"
| new_session: "reachable s \<Longrightarrow> reachable (s\<lparr>session_daily_consumption := []\<rparr>)"

subsection \<open>Notions of the specification\<close>

text \<open>
  The specification speaks of a map from appliance to hours in which only positive hours
  count: an appliance whose checkbox is not ticked has no hours.
\<close>

definition appliance_hours :: "widgets \<Rightarrow> string \<Rightarrow> int" where
  "appliance_hours w a = (if used w a then hours w a else 0)"

text \<open>The order of the three bands, \<open>Low < Medium < High\<close>.\<close>

definition band_rank :: "string \<Rightarrow> nat" where
  "band_rank label =
     (if label = ''Low'' then 0 else if label = ''Medium'' then 1
      else if label = ''High'' then 2 else 3)"

subsection \<open>Example data\<close>

definition alice :: user_data where
  "alice = \<lparr> name = Some ''Alice'', home_facility = Some ''2BHK'',
             appliances = Some [''AC'', ''Fridge''] \<rparr>"

definition both_eight_hours :: widgets where
  "both_eight_hours =
     \<lparr> date_iso = ''2024-01-01'', day_name = ''Monday'', used = (\<lambda>a. True),
       hours = (\<lambda>a. 8), solar_used = False, solar_hours = 6 \<rparr>"

definition studio :: user_data where
  "studio = \<lparr> name = Some ''Bala'', home_facility = Some ''1BHK'', appliances = Some [] \<rparr>"

definition solar_twelve :: widgets where
  "solar_twelve =
     \<lparr> date_iso = ''2024-01-01'', day_name = ''Monday'', used = (\<lambda>a. False),
       hours = (\<lambda>a. 8), solar_used = True, solar_hours = 12 \<rparr>"

definition row :: "string \<Rightarrow> string \<Rightarrow> real \<Rightarrow> daily_record" where
  "row d u units =
     \<lparr> date = d, day = ''Monday'', user_name = Str u, base_consumption = 4,
       appliance_consumption = units - 4, solar_reduction = 0, total_consumption = units,
       estimated_cost = units * 5.5, appliances_used = [] \<rparr>"

definition fresh :: "csv_file \<Rightarrow> app_state" where
  "fresh f = \<lparr>csv = f, cache = None, session_daily_consumption = []\<rparr>"

lemmas eval_store = save_todays_data_def save_data_def to_csv_def load_data_def
  load_data_body_def load_data_try_def read_csv_def path_exists_def fresh_def row_def key_def
  Let_def

lemmas eval_types = infer_types_def cell_text_def is_na_def na_values_def looks_int_def
  unsigned_def canonical_def

lemmas eval_tables = calculate_base_consumption_def get_appliance_consumption_def dict_get_def
  consumption_map_def appliance_map_def

section \<open>Properties of the tracking page\<close>

subsection \<open>The appliance loop\<close>

lemma appliance_loop_snd:
  "snd (appliance_loop w as (u, d)) =
     d + (\<Sum>a\<leftarrow>filter (used w) as. consumption a (hours w a))"
  by (induction as arbitrary: u d) simp_all

lemma used_sum_as_hours_sum:
  assumes "\<forall>a\<in>set as. used w a \<longrightarrow> 1 \<le> hours w a \<and> hours w a \<le> 24"
  shows "(\<Sum>a\<leftarrow>filter (used w) as. consumption a (hours w a)) =
         (\<Sum>a\<leftarrow>filter (\<lambda>a. 0 < appliance_hours w a) as.
            real_of_int (get_appliance_consumption a) * (real_of_int (appliance_hours w a) / 8))"
  using assms
  by (induction as) (auto simp: appliance_hours_def consumption_def)

text \<open>
  C1. For every home size, every list of appliances with their checkbox and slider
  values (each slider delivers a value from 1 to 24, so the hours of the specification's
  map are positive exactly for the appliances that were used), and every solar input,
  the daily total is \<open>max 0 (base + \<Sum> rate \<times> hours / 8 - solar)\<close>, where the sum ranges
  over the appliances with positive hours and the solar term is \<open>solar_hours \<times> 1.5\<close> when
  solar energy was used and 0 otherwise. The total is never negative.
\<close>

theorem daily_consumption_formula:
  assumes "home_facility ud = Some home" and "appliances ud = Some as"
    and "\<forall>a\<in>set as. used w a \<longrightarrow> 1 \<le> hours w a \<and> hours w a \<le> 24"
  shows "daily_consumption ud w =
           max 0 (real_of_int (calculate_base_consumption home)
                  + (\<Sum>a\<leftarrow>filter (\<lambda>a. 0 < appliance_hours w a) as.
                       real_of_int (get_appliance_consumption a)
                       * (real_of_int (appliance_hours w a) / 8))
                  - (if solar_used w then real_of_int (solar_hours w) * 1.5 else 0))
         \<and> 0 \<le> daily_consumption ud w"
proof -
  have "snd (tracked ud w) =
          real_of_int (calculate_base_consumption home)
          + (\<Sum>a\<leftarrow>filter (used w) as. consumption a (hours w a))"
    using assms(1,2) by (simp add: tracked_def base_consumption_of_def appliance_loop_snd)
  then show ?thesis
    using used_sum_as_hours_sum [OF assms(3)]
    by (simp add: daily_consumption_def solar_reduction_of_def)
qed

text \<open>
  The formula at two inputs: a 1BHK home with no appliance and twelve solar hours (the
  reduction of 18 exceeds the base of 3, and the total is 0), and a 2BHK home whose AC
  and fridge both ran for eight hours.
\<close>

theorem daily_consumption_formula_witness:
  "daily_consumption studio solar_twelve = 0 \<and> daily_consumption alice both_eight_hours = 9"
  using daily_consumption_formula [of studio "''1BHK''" "[]" solar_twelve]
    daily_consumption_formula [of alice "''2BHK''" "[''AC'', ''Fridge'']" both_eight_hours]
  by (simp add: studio_def solar_twelve_def alice_def both_eight_hours_def appliance_hours_def
      eval_tables)

subsection \<open>The category\<close>

text \<open>
  C2. The category of a total is Low when the total is at most 5, Medium when it is
  above 5 and at most 10, and High when it is above 10; a total on a threshold falls in
  the lower band. In particular 5.0 is Low, 5.1 is Medium, 10.0 is Medium and 10.1 is
  High.
\<close>

theorem get_consumption_category_bands:
  "(units \<le> 5 \<longrightarrow> fst (get_consumption_category units) = ''Low'') \<and>
   (5 < units \<and> units \<le> 10 \<longrightarrow> fst (get_consumption_category units) = ''Medium'') \<and>
   (10 < units \<longrightarrow> fst (get_consumption_category units) = ''High'') \<and>
   fst (get_consumption_category 5.0) = ''Low'' \<and>
   fst (get_consumption_category 5.1) = ''Medium'' \<and>
   fst (get_consumption_category 10.0) = ''Medium'' \<and>
   fst (get_consumption_category 10.1) = ''High''"
  by (simp add: get_consumption_category_def)

theorem get_consumption_category_bands_witness:
  "fst (get_consumption_category 3) = ''Low'' \<and>
   fst (get_consumption_category 7.5) = ''Medium'' \<and>
   fst (get_consumption_category 12) = ''High''"
  using get_consumption_category_bands [of 3] get_consumption_category_bands [of "7.5"]
    get_consumption_category_bands [of 12]
  by simp

text \<open>
  C10. The category is monotone in the total: a smaller total never lies in a strictly
  higher band than a larger one, in the order Low, Medium, High.
\<close>

theorem get_consumption_category_mono:
  assumes "u \<le> v"
  shows "band_rank (fst (get_consumption_category u))
           \<le> band_rank (fst (get_consumption_category v))"
  using assms by (simp add: get_consumption_category_def band_rank_def)

theorem get_consumption_category_mono_witness:
  "band_rank (fst (get_consumption_category 4)) \<le> band_rank (fst (get_consumption_category 11))
   \<and> band_rank (fst (get_consumption_category 4)) = 0
   \<and> band_rank (fst (get_consumption_category 11)) = 2"
  using get_consumption_category_mono [of 4 11]
  by (simp add: get_consumption_category_def band_rank_def)

subsection \<open>The constant tables\<close>

text \<open>
  C4. The base consumption is 3 for 1BHK, 4 for 2BHK, 5 for 3BHK, 6 for 4BHK, 8 for
  Villa, and 4 for every other string; the lookup is total.
\<close>

theorem calculate_base_consumption_table:
  "calculate_base_consumption ''1BHK'' = 3 \<and>
   calculate_base_consumption ''2BHK'' = 4 \<and>
   calculate_base_consumption ''3BHK'' = 5 \<and>
   calculate_base_consumption ''4BHK'' = 6 \<and>
   calculate_base_consumption ''Villa'' = 8 \<and>
   (home_type \<notin> {''1BHK'', ''2BHK'', ''3BHK'', ''4BHK'', ''Villa''} \<longrightarrow>
      calculate_base_consumption home_type = 4)"
  by (simp add: eval_tables)

theorem calculate_base_consumption_table_witness:
  "calculate_base_consumption ''Bungalow'' = 4 \<and> calculate_base_consumption [] = 4"
  using calculate_base_consumption_table [of "''Bungalow''"]
    calculate_base_consumption_table [of "[]"]
  by simp

text \<open>
  C5. The appliance rate is 3 for the AC, 2 for the fridge, 4 for the washing machine,
  3 for the dishwasher, 5 for the water heater, 4 for the electric stove, and 1 for every
  other name (the names are the labels the setup page offers; the specification's
  WashingMachine, WaterHeater and ElectricStove are the labels ``Washing Machine'',
  ``Water Heater'' and ``Electric Stove''). The contribution of an appliance used for
  \<open>h\<close> hours is its rate times \<open>h / 8\<close>, and at 8 hours it is the rate itself.
\<close>

theorem get_appliance_consumption_table:
  "get_appliance_consumption ''AC'' = 3 \<and>
   get_appliance_consumption ''Fridge'' = 2 \<and>
   get_appliance_consumption ''Washing Machine'' = 4 \<and>
   get_appliance_consumption ''Dishwasher'' = 3 \<and>
   get_appliance_consumption ''Water Heater'' = 5 \<and>
   get_appliance_consumption ''Electric Stove'' = 4 \<and>
   (appliance \<notin> {''AC'', ''Fridge'', ''Washing Machine'', ''Dishwasher'', ''Water Heater'',
                   ''Electric Stove''} \<longrightarrow> get_appliance_consumption appliance = 1) \<and>
   consumption appliance h
     = real_of_int (get_appliance_consumption appliance) * real_of_int h / 8 \<and>
   consumption appliance 8 = real_of_int (get_appliance_consumption appliance)"
  by (simp add: eval_tables consumption_def)

theorem get_appliance_consumption_table_witness:
  "get_appliance_consumption ''Television'' = 1 \<and> consumption ''Television'' 8 = 1"
  using get_appliance_consumption_table [of "''Television''" 8]
  by simp

subsection \<open>The estimated cost\<close>

text \<open>
  C6. The estimated cost of every stored row is its total consumption times the fixed
  price 5.5. For a 2BHK home whose AC and fridge both ran for eight hours, without solar
  energy, the base is 4, the appliances add 5, the total is 9.0, the category is Medium
  and the estimated cost is 49.5.
\<close>

theorem estimated_cost_fixed_price:
  "estimated_cost (daily_data ud w) = total_consumption (daily_data ud w) * 5.5 \<and>
   base_consumption (daily_data alice both_eight_hours) = 4 \<and>
   appliance_consumption (daily_data alice both_eight_hours) = 5 \<and>
   total_consumption (daily_data alice both_eight_hours) = 9.0 \<and>
   category alice both_eight_hours = ''Medium'' \<and>
   estimated_cost (daily_data alice both_eight_hours) = 49.5"
  by (simp add: daily_data_def category_def daily_consumption_def tracked_def
      appliance_usage_of_def solar_reduction_of_def base_consumption_of_def consumption_def
      eval_tables alice_def both_eight_hours_def get_consumption_category_def)

section \<open>Properties of the record store\<close>

subsection \<open>Dropping duplicates\<close>

lemma keys_drop_duplicates: "set (map key (drop_duplicates rs)) = set (map key rs)"
  by (induction rs) auto

lemma distinct_drop_duplicates: "distinct (map key (drop_duplicates rs))"
proof (induction rs)
  case Nil
  show ?case by simp
next
  case (Cons r rs)
  show ?case
  proof (cases "key r \<in> set (map key rs)")
    case True
    with Cons show ?thesis by simp
  next
    case False
    then have "key r \<notin> set (map key (drop_duplicates rs))"
      by (simp only: keys_drop_duplicates not_False_eq_True)
    with Cons False show ?thesis by simp
  qed
qed

lemma drop_duplicates_distinct: "distinct (map key rs) \<Longrightarrow> drop_duplicates rs = rs"
  by (induction rs) auto

text \<open>Appending a row and dropping duplicates removes the older rows of its key.\<close>

lemma drop_duplicates_append_one:
  "drop_duplicates (rs @ [r]) = filter (\<lambda>x. key x \<noteq> key r) (drop_duplicates rs) @ [r]"
  by (induction rs) auto

lemma filter_key_appended:
  "filter (\<lambda>x. key x = key r) (drop_duplicates (rs @ [r])) = [r]"
  by (simp add: drop_duplicates_append_one)

subsection \<open>Loading through the cache\<close>

lemma load_data_csv: "csv (snd (load_data s)) = csv s"
  by (simp add: load_data_def Let_def split: option.splits)

lemma load_data_session:
  "session_daily_consumption (snd (load_data s)) = session_daily_consumption s"
  by (simp add: load_data_def Let_def split: option.splits)

lemma load_data_cache: "cache (snd (load_data s)) = Some (fst (load_data s))"
  by (simp add: load_data_def Let_def split: option.splits)

lemma load_data_cached: "cache s = Some df \<Longrightarrow> fst (load_data s) = df"
  by (simp add: load_data_def)

lemma load_data_miss: "cache s = None \<Longrightarrow> fst (load_data s) = load_data_body (csv s)"
  by (simp add: load_data_def Let_def)

subsection \<open>The effect of a save\<close>

lemma save_todays_data_cache:
  "cache (snd (save_todays_data r out s)) = Some (fst (load_data s))"
  using load_data_cache [of s]
  by (cases "load_data s")
     (simp add: save_todays_data_def save_data_def to_csv_def Let_def split: write_outcome.splits)

lemma save_todays_data_csv:
  "csv (snd (save_todays_data r out s)) =
     (case out of
        Written \<Rightarrow> Table (drop_duplicates (fst (load_data s) @ [r]))
      | Fails_before_open \<Rightarrow> csv s
      | Fails_after_open n \<Rightarrow> Table (take n (drop_duplicates (fst (load_data s) @ [r]))))"
  using load_data_csv [of s]
  by (cases "load_data s")
     (simp add: save_todays_data_def save_data_def to_csv_def Let_def split: write_outcome.splits)

lemma save_todays_data_written:
  "csv (snd (save_todays_data r Written s)) = Table (drop_duplicates (fst (load_data s) @ [r]))"
  by (simp add: save_todays_data_csv)

lemma save_todays_data_result: "fst (save_todays_data r out s) = (out = Written)"
  by (cases "load_data s")
     (simp add: save_todays_data_def save_data_def to_csv_def Let_def split: write_outcome.splits)

lemma save_todays_data_session:
  "session_daily_consumption (snd (save_todays_data r out s)) =
     (if out = Written then session_daily_consumption s @ [r] else session_daily_consumption s)"
  using load_data_session [of s]
  by (cases "load_data s")
     (simp add: save_todays_data_def save_data_def to_csv_def Let_def split: write_outcome.splits)

text \<open>
  A save leaves the cache entry of its own load behind, so a load after a save returns
  what the load before it returned, not what was written.
\<close>

lemma load_after_save: "fst (load_data (snd (save_todays_data r out s))) = fst (load_data s)"
  by (simp add: load_data_cached save_todays_data_cache)

subsection \<open>Invariants\<close>

text \<open>
  The program never deletes the file, so while the file is absent the cache holds
  nothing or the empty table.
\<close>

lemma reachable_absent:
  "reachable s \<Longrightarrow> csv s = Absent \<Longrightarrow> cache s = None \<or> cache s = Some []"
proof (induction rule: reachable.induct)
  case (start f)
  show ?case by simp
next
  case (loaded s)
  then show ?case
    by (auto simp: load_data_def load_data_body_def load_data_try_def path_exists_def Let_def
        split: option.splits)
next
  case (saved s daily out)
  from saved.prems have "csv s = Absent"
    by (simp add: save_todays_data_csv split: write_outcome.splits)
  with saved.IH have "fst (load_data s) = []"
    by (auto simp: load_data_def load_data_body_def load_data_try_def path_exists_def Let_def)
  then show ?case by (simp add: save_todays_data_cache)
next
  case (new_session s)
  then show ?case by simp
qed

subsection \<open>Saving twice under one key\<close>

text \<open>
  In the table as the DataFrame holds it, a successful save leaves exactly one row with
  the key of the saved row, the saved row itself.
\<close>

lemma written_table_one_row_of_key:
  "\<exists>rows. csv (snd (save_todays_data r Written s)) = Table rows \<and>
          filter (\<lambda>x. key x = key r) rows = [r]"
  by (simp add: save_todays_data_written filter_key_appended)

text \<open>
  C3. Two saves under one date and user name are meant to leave one row of that key, the
  second. The comparison is made on the typed values: a name that is an integer literal
  is read back from the file as a number, which is not equal to the string of the new
  row, so the old row is kept. With a file that holds a row of the user 123 for a date,
  two saves by that user for that date leave a file with two rows of that date and name,
  and the next process reads two rows of one key.
\<close>

theorem numeric_name_kept_twice:
  "key (row ''2024-01-02'' ''123'' 9) = key (row ''2024-01-02'' ''123'' 11) \<and>
   csv (snd (save_todays_data (row ''2024-01-02'' ''123'' 11) Written
         (snd (save_todays_data (row ''2024-01-02'' ''123'' 9) Written
                (fresh (Table [row ''2024-01-02'' ''123'' 7]))))))
     = Table [(row ''2024-01-02'' ''123'' 7)\<lparr>user_name := Number ''123''\<rparr>,
              row ''2024-01-02'' ''123'' 11] \<and>
   map (\<lambda>r. (date r, cell_text (user_name r)))
       [(row ''2024-01-02'' ''123'' 7)\<lparr>user_name := Number ''123''\<rparr>,
        row ''2024-01-02'' ''123'' 11]
     = [(''2024-01-02'', ''123''), (''2024-01-02'', ''123'')] \<and>
   map key (load_data_body
       (Table [(row ''2024-01-02'' ''123'' 7)\<lparr>user_name := Number ''123''\<rparr>,
               row ''2024-01-02'' ''123'' 11]))
     = [(''2024-01-02'', Number ''123''), (''2024-01-02'', Number ''123'')]"
  by (simp add: eval_store eval_types)

subsection \<open>Loading never fails\<close>

text \<open>
  C7. Loading never raises: the result is always a table. When the file is absent the
  result is the empty table, and when the read raises any exception the result is the
  empty table as well, so an unreadable file looks like a file that does not exist yet.
\<close>

theorem load_data_never_raises:
  assumes "reachable s"
  shows "(csv s = Absent \<longrightarrow> fst (load_data s) = []) \<and>
         (cache s = None \<longrightarrow> (\<exists>e. load_data_try (csv s) = Inl e) \<longrightarrow> fst (load_data s) = []) \<and>
         load_data_body Absent = [] \<and> load_data_body Unreadable = []"
proof -
  have "fst (load_data s) = []" if "csv s = Absent"
    using reachable_absent [OF assms that] that
    by (auto simp: load_data_def load_data_body_def load_data_try_def path_exists_def Let_def)
  moreover have "fst (load_data s) = []"
    if "cache s = None" and "load_data_try (csv s) = Inl e" for e
    using that by (simp add: load_data_def load_data_body_def Let_def)
  ultimately show ?thesis
    by (auto simp: load_data_body_def load_data_try_def read_csv_def path_exists_def)
qed

theorem load_data_never_raises_witness:
  "fst (load_data (fresh Absent)) = [] \<and> fst (load_data (fresh Unreadable)) = [] \<and>
   load_data_try Unreadable = Inl ReadError"
  using load_data_never_raises [OF reachable.start [of Absent]]
    load_data_never_raises [OF reachable.start [of Unreadable]]
  by (simp add: fresh_def load_data_try_def read_csv_def path_exists_def)

subsection \<open>A failed write\<close>

text \<open>
  C8 asks that a failed save leave the file as it was. The code writes the file in
  place: when the write fails after the file was opened, the save reports failure and
  the file that held one row holds none.
\<close>

theorem failed_write_truncates:
  "fst (save_todays_data (row ''2024-01-02'' ''Alice'' 9) (Fails_after_open 0)
          (fresh (Table [row ''2024-01-01'' ''Alice'' 7]))) = False \<and>
   csv (fresh (Table [row ''2024-01-01'' ''Alice'' 7])) = Table [row ''2024-01-01'' ''Alice'' 7] \<and>
   csv (snd (save_todays_data (row ''2024-01-02'' ''Alice'' 9) (Fails_after_open 0)
          (fresh (Table [row ''2024-01-01'' ''Alice'' 7])))) = Table []"
  by (simp add: eval_store)

text \<open>
  C8, as the code has it: a save returns \<open>True\<close> exactly when the whole table was written;
  then the file holds the merged table and the row joins the session's list. When the
  write fails the session's list is unchanged, and the file is unchanged when the
  failure came before the file was opened.
\<close>

theorem save_reports_and_keeps_session:
  "fst (save_todays_data r out s) = (out = Written) \<and>
   fst (save_data df out s) = (out = Written) \<and>
   (out = Written \<longrightarrow>
      csv (snd (save_todays_data r out s)) = Table (drop_duplicates (fst (load_data s) @ [r])) \<and>
      session_daily_consumption (snd (save_todays_data r out s))
        = session_daily_consumption s @ [r]) \<and>
   (out \<noteq> Written \<longrightarrow>
      session_daily_consumption (snd (save_todays_data r out s)) = session_daily_consumption s) \<and>
   (out = Fails_before_open \<longrightarrow>
      csv (snd (save_todays_data r out s)) = csv s \<and> csv (snd (save_data df out s)) = csv s)"
  by (simp add: save_todays_data_result save_todays_data_session save_todays_data_csv)
     (simp add: save_data_def to_csv_def split: write_outcome.splits)

theorem save_reports_and_keeps_session_witness:
  "fst (save_todays_data (row ''2024-01-02'' ''Alice'' 9) Fails_before_open
          (fresh (Table [row ''2024-01-01'' ''Alice'' 7]))) = False \<and>
   csv (snd (save_todays_data (row ''2024-01-02'' ''Alice'' 9) Fails_before_open
          (fresh (Table [row ''2024-01-01'' ''Alice'' 7]))))
     = Table [row ''2024-01-01'' ''Alice'' 7] \<and>
   session_daily_consumption (snd (save_todays_data (row ''2024-01-02'' ''Alice'' 9) Written
          (fresh (Table [row ''2024-01-01'' ''Alice'' 7])))) = [row ''2024-01-02'' ''Alice'' 9]"
  using save_reports_and_keeps_session [of "row ''2024-01-02'' ''Alice'' 9" Fails_before_open
          "fresh (Table [row ''2024-01-01'' ''Alice'' 7])" "[]"]
    save_reports_and_keeps_session [of "row ''2024-01-02'' ''Alice'' 9" Written
          "fresh (Table [row ''2024-01-01'' ''Alice'' 7])" "[]"]
  by (simp add: fresh_def)

subsection \<open>Rows of other keys\<close>

text \<open>
  The first save of a process reads the file itself, and then every row of another key
  stays in the table (for a table whose names are read back as they were written).
\<close>

lemma first_save_keeps_other_keys:
  assumes "cache s = None" and "csv s = Table rows" and "infer_types rows = rows"
    and "distinct (map key rows)" and "r' \<in> set rows" and "key r' \<noteq> key r"
  shows "\<exists>rows'. csv (snd (save_todays_data r Written s)) = Table rows' \<and> r' \<in> set rows'"
proof -
  have "fst (load_data s) = rows"
    using assms(1,2,3)
    by (simp add: load_data_miss load_data_body_def load_data_try_def read_csv_def path_exists_def)
  then have "csv (snd (save_todays_data r Written s)) =
               Table (filter (\<lambda>x. key x \<noteq> key r) rows @ [r])"
    using assms(4) by (simp add: save_todays_data_written drop_duplicates_append_one
        drop_duplicates_distinct)
  with assms(5,6) show ?thesis by simp
qed

text \<open>
  C9. A save is meant to touch the row of its own date and user name only. Every later
  save of the same process appends to the cached table instead of the file: with no
  file at the start, Alice's save writes her row, and Bob's save for the same date then
  writes a table that holds his row alone.
\<close>

theorem second_save_loses_first:
  "key (row ''2024-01-01'' ''Alice'' 9) \<noteq> key (row ''2024-01-01'' ''Bob'' 7) \<and>
   csv (snd (save_todays_data (row ''2024-01-01'' ''Alice'' 9) Written (fresh Absent)))
     = Table [row ''2024-01-01'' ''Alice'' 9] \<and>
   csv (snd (save_todays_data (row ''2024-01-01'' ''Bob'' 7) Written
         (snd (save_todays_data (row ''2024-01-01'' ''Alice'' 9) Written (fresh Absent)))))
     = Table [row ''2024-01-01'' ''Bob'' 7]"
  by (simp add: eval_store)

end
